theory Spec2Isabelle
  imports Complex_Main
begin

section \<open>Nearest-flight locator: numeric core\<close>

text \<open>
  The repository holds two variants of one service. \<^verbatim>\<open>src/main.go\<close> resolves the
  descriptive fields of a flight from CSV tables loaded at start-up;
  \<^verbatim>\<open>src/unnamed/part_000\<close> fetches them from the feed's details endpoint. The
  numeric functions \<^verbatim>\<open>feetToMeters\<close>, \<^verbatim>\<open>distance\<close> and \<^verbatim>\<open>pointToCartesian\<close> are
  the same text in both files and are embedded once.

  A Go \<^verbatim>\<open>float64\<close> is idealised as a \<^typ>\<open>real\<close>: rounding, overflow, infinities and
  NaN are not part of the model. \<^verbatim>\<open>math.Pow(v, 2)\<close> is the square of \<^verbatim>\<open>v\<close>.
\<close>

definition feetToMeters :: "real \<Rightarrow> real" where
  "feetToMeters feet = 0.3048 * feet"

definition distance :: "real \<Rightarrow> real \<Rightarrow> real \<Rightarrow> real \<Rightarrow> real \<Rightarrow> real \<Rightarrow> real" where
  "distance x1 y1 z1 x2 y2 z2 = sqrt ((x2 - x1)\<^sup>2 + (y2 - y1)\<^sup>2 + (z2 - z1)\<^sup>2)"

text \<open>The closure \<^verbatim>\<open>N\<close> inside \<^verbatim>\<open>pointToCartesian\<close>.\<close>

definition N :: "real \<Rightarrow> real" where
  "N phi = 6378137 / sqrt (1 - 0.006694379990197619 * (sin phi)\<^sup>2)"

definition pointToCartesian :: "real \<Rightarrow> real \<Rightarrow> real \<Rightarrow> real \<times> real \<times> real" where
  "pointToCartesian longitude latitude altitude =
     (let x = (N latitude + altitude) * cos latitude * cos longitude;
          y = (N latitude + altitude) * cos latitude * sin longitude;
          z = (0.9933056200098024 * N latitude + altitude) * sin latitude
      in (x, y, z))"

text \<open>
  The transform as section 4.1 of the specification words it, with the semi-major axis
  \<open>a\<close> and the squared eccentricity \<open>e2\<close> as named constants and the factor of \<open>z\<close>
  written \<open>1 - e2\<close>.
\<close>

definition wgs84_a :: real where
  "wgs84_a = 6378137.0"

definition wgs84_e2 :: real where
  "wgs84_e2 = 0.006694379990197619"

definition N_spec :: "real \<Rightarrow> real" where
  "N_spec lat = wgs84_a / sqrt (1 - wgs84_e2 * (sin lat)\<^sup>2)"

definition toCartesian_spec :: "real \<Rightarrow> real \<Rightarrow> real \<Rightarrow> real \<times> real \<times> real" where
  "toCartesian_spec lon lat alt =
     ((N_spec lat + alt) * cos lat * cos lon,
      (N_spec lat + alt) * cos lat * sin lon,
      ((1 - wgs84_e2) * N_spec lat + alt) * sin lat)"

section \<open>Decoded JSON, panics and the two flight records\<close>

text \<open>
  \<^verbatim>\<open>json.Unmarshal\<close> into an \<^verbatim>\<open>interface{}\<close> yields \<^verbatim>\<open>nil\<close>, \<^verbatim>\<open>bool\<close>, \<^verbatim>\<open>float64\<close>,
  \<^verbatim>\<open>string\<close>, \<^verbatim>\<open>[]interface{}\<close> or \<^verbatim>\<open>map[string]interface{}\<close>. A Go map has one
  value for each key; the model lists the entries of a map in the order in which
  \<^verbatim>\<open>range\<close> visits them, which Go leaves open.
\<close>

datatype json =
  JNull
| JBool bool
| JNum real
| JStr string
| JArr "json list"
| JObj "(string \<times> json) list"

text \<open>
  A failed type assertion and an index out of range are run-time panics; \<^verbatim>\<open>log.Fatal\<close>
  ends the process. Neither is caught anywhere in the two files.
\<close>

datatype error = TypeAssertionPanic | IndexOutOfRangePanic | LogFatal

record flightPosition =
  fr24id :: string
  longitude :: real
  latitude :: real
  altitude :: int

record flightData =
  icaoType :: string
  icaoAirline :: string
  iataDeparting :: string
  iataArriving :: string
  longitude :: real
  latitude :: real
  altitude :: int

text \<open>The zero values \<^verbatim>\<open>flightPosition{}\<close> and \<^verbatim>\<open>flightData{}\<close>.\<close>

definition zeroFlightPosition :: flightPosition where
  "zeroFlightPosition =
     \<lparr>fr24id = [], flightPosition.longitude = 0, flightPosition.latitude = 0,
      flightPosition.altitude = 0\<rparr>"

definition zeroFlightData :: flightData where
  "zeroFlightData =
     \<lparr>icaoType = [], icaoAirline = [], iataDeparting = [], iataArriving = [],
      flightData.longitude = 0, flightData.latitude = 0, flightData.altitude = 0\<rparr>"

text \<open>
  The conversion \<^verbatim>\<open>int(f)\<close> of a \<^verbatim>\<open>float64\<close> drops the fraction. Go's \<^verbatim>\<open>int\<close> is taken
  as 64 bits wide. Where the truncated value does not fit, the language leaves the result
  to the implementation; the model takes what amd64 produces there, the least \<^verbatim>\<open>int\<close>.
\<close>

definition float64ToInt :: "real \<Rightarrow> int" where
  "float64ToInt f =
     (let t = (if 0 \<le> f then \<lfloor>f\<rfloor> else - \<lfloor>- f\<rfloor>)
      in if - (2 ^ 63) \<le> t \<and> t < 2 ^ 63 then t else - (2 ^ 63))"

text \<open>The expressions \<^verbatim>\<open>v.(map[string]interface{})\<close>, \<^verbatim>\<open>v.([]interface{})\<close>,
  \<^verbatim>\<open>status[i].(float64)\<close> and \<^verbatim>\<open>status[i].(string)\<close>. The index is evaluated before the
  assertion.\<close>

fun assertMap :: "json option \<Rightarrow> error + (string \<times> json) list" where
  "assertMap (Some (JObj m)) = Inr m"
| "assertMap _ = Inl TypeAssertionPanic"

fun assertSlice :: "json \<Rightarrow> error + json list" where
  "assertSlice (JArr status) = Inr status"
| "assertSlice _ = Inl TypeAssertionPanic"

fun assertFloat64 :: "json \<Rightarrow> error + real" where
  "assertFloat64 (JNum f) = Inr f"
| "assertFloat64 _ = Inl TypeAssertionPanic"

fun assertString :: "json \<Rightarrow> error + string" where
  "assertString (JStr s) = Inr s"
| "assertString _ = Inl TypeAssertionPanic"

definition float64At :: "json list \<Rightarrow> nat \<Rightarrow> error + real" where
  "float64At status i =
     (if i < length status then assertFloat64 (status ! i) else Inl IndexOutOfRangePanic)"

definition stringAt :: "json list \<Rightarrow> nat \<Rightarrow> error + string" where
  "stringAt status i =
     (if i < length status then assertString (status ! i) else Inl IndexOutOfRangePanic)"

text \<open>The built-in \<^verbatim>\<open>delete(m, key)\<close>.\<close>

definition delete :: "(string \<times> json) list \<Rightarrow> string \<Rightarrow> (string \<times> json) list" where
  "delete m key = filter (\<lambda>(k, v). k \<noteq> key) m"

section \<open>The feed decoder\<close>

text \<open>
  \<^verbatim>\<open>parseFlightsJSON\<close> of \<^verbatim>\<open>src/unnamed/part_000\<close>. Its argument in the model is what
  \<^verbatim>\<open>json.Unmarshal\<close> left in \<^verbatim>\<open>response\<close>: \<open>None\<close> when \<^verbatim>\<open>Unmarshal\<close> returned an
  error, which the function logs and then ignores, so that \<^verbatim>\<open>response\<close> is still \<^verbatim>\<open>nil\<close>.
  \<open>planeStatus\<close> is the body of the \<^verbatim>\<open>range\<close> loop up to the \<^verbatim>\<open>append\<close>, and
  \<open>parseLoop\<close> is the loop.
\<close>

definition planeStatus :: "string \<Rightarrow> json \<Rightarrow> error + flightPosition" where
  "planeStatus key planeData =
     (case assertSlice planeData of Inl e \<Rightarrow> Inl e | Inr status \<Rightarrow>
      (case float64At status 1 of Inl e \<Rightarrow> Inl e | Inr lat \<Rightarrow>
       (case float64At status 2 of Inl e \<Rightarrow> Inl e | Inr lon \<Rightarrow>
        (case float64At status 4 of Inl e \<Rightarrow> Inl e | Inr alt \<Rightarrow>
           Inr \<lparr>fr24id = key, flightPosition.longitude = lon, flightPosition.latitude = lat,
                flightPosition.altitude = float64ToInt alt\<rparr>))))"

fun parseLoop :: "(string \<times> json) list \<Rightarrow> flightPosition list \<Rightarrow> error + flightPosition list" where
  "parseLoop [] flights = Inr flights"
| "parseLoop ((key, planeData) # rest) flights =
     (case planeStatus key planeData of
        Inl e \<Rightarrow> Inl e
      | Inr plane \<Rightarrow> parseLoop rest (flights @ [plane]))"

definition parseFlightsJSON :: "json option \<Rightarrow> error + flightPosition list" where
  "parseFlightsJSON response =
     (case assertMap response of
        Inl e \<Rightarrow> Inl e
      | Inr flightsData \<Rightarrow> parseLoop (delete (delete flightsData ''full_count'') ''version'') [])"

text \<open>\<^verbatim>\<open>parseFlightsJSON\<close> of \<^verbatim>\<open>src/main.go\<close>, which reads four strings more.\<close>

definition planeStatus_main :: "json \<Rightarrow> error + flightData" where
  "planeStatus_main planeData =
     (case assertSlice planeData of Inl e \<Rightarrow> Inl e | Inr status \<Rightarrow>
      (case float64At status 1 of Inl e \<Rightarrow> Inl e | Inr lat \<Rightarrow>
       (case float64At status 2 of Inl e \<Rightarrow> Inl e | Inr lon \<Rightarrow>
        (case float64At status 4 of Inl e \<Rightarrow> Inl e | Inr alt \<Rightarrow>
         (case stringAt status 8 of Inl e \<Rightarrow> Inl e | Inr ty \<Rightarrow>
          (case stringAt status 11 of Inl e \<Rightarrow> Inl e | Inr dep \<Rightarrow>
           (case stringAt status 12 of Inl e \<Rightarrow> Inl e | Inr arr \<Rightarrow>
            (case stringAt status 18 of Inl e \<Rightarrow> Inl e | Inr airline \<Rightarrow>
               Inr \<lparr>icaoType = ty, icaoAirline = airline, iataDeparting = dep,
                    iataArriving = arr, flightData.longitude = lon,
                    flightData.latitude = lat,
                    flightData.altitude = float64ToInt alt\<rparr>))))))))"

fun parseLoop_main :: "(string \<times> json) list \<Rightarrow> flightData list \<Rightarrow> error + flightData list" where
  "parseLoop_main [] flights = Inr flights"
| "parseLoop_main ((key, planeData) # rest) flights =
     (case planeStatus_main planeData of
        Inl e \<Rightarrow> Inl e
      | Inr plane \<Rightarrow> parseLoop_main rest (flights @ [plane]))"

definition parseFlightsJSON_main :: "json option \<Rightarrow> error + flightData list" where
  "parseFlightsJSON_main response =
     (case assertMap response of
        Inl e \<Rightarrow> Inl e
      | Inr flightsData \<Rightarrow>
          parseLoop_main (delete (delete flightsData ''full_count'') ''version'') [])"

section \<open>The world outside the two files\<close>

text \<open>
  What the service calls and does not define is a parameter of the model.
  \<^item> \<open>ParseFloat s\<close> is \<^verbatim>\<open>strconv.ParseFloat(s, 64)\<close>: the value, and whether the error
    is not \<^verbatim>\<open>nil\<close>.
  \<^item> \<open>feed n s w e\<close> is the feed request for the bounds \<^verbatim>\<open>n,s,w,e\<close> of the URL, up to and
    including \<^verbatim>\<open>json.Unmarshal\<close> of the body: \<open>Inl LogFatal\<close> when \<^verbatim>\<open>httpGet\<close> ends
    the process, otherwise what \<^verbatim>\<open>Unmarshal\<close> left in \<^verbatim>\<open>response\<close>.
  \<^item> \<open>clickhandler id\<close> is the details request for a flight identifier, up to and
    including \<^verbatim>\<open>parseFlightDetailsJSON\<close>, which returns the struct whether or not
    \<^verbatim>\<open>Unmarshal\<close> failed.
  The nested struct \<^verbatim>\<open>FlightDetailsJSON\<close> is flattened to its four leaves.
\<close>

record FlightDetailsJSON =
  Aircraft_Model_Text :: string
  Airline_Name :: string
  Airport_Origin_Name :: string
  Airport_Destination_Name :: string

record world =
  ParseFloat :: "string \<Rightarrow> real \<times> bool"
  feed :: "real \<Rightarrow> real \<Rightarrow> real \<Rightarrow> real \<Rightarrow> error + json option"
  clickhandler :: "string \<Rightarrow> error + FlightDetailsJSON"

text \<open>The three tables of \<^verbatim>\<open>src/main.go\<close>; a Go map yields the empty string for a key
  it does not hold.\<close>

record tables =
  icaoAirlines :: "string \<rightharpoonup> string"
  icaoTypes :: "string \<rightharpoonup> string"
  iataAirports :: "string \<rightharpoonup> string"

definition lookup :: "(string \<rightharpoonup> string) \<Rightarrow> string \<Rightarrow> string" where
  "lookup m key = (case m key of None \<Rightarrow> [] | Some v \<Rightarrow> v)"

text \<open>A request: its method and \<^verbatim>\<open>URL.Query()\<close>, a map from a key to its values.
  \<^verbatim>\<open>Get\<close> returns the first value of a key, or the empty string.\<close>

record request =
  Method :: string
  Query :: "string \<Rightarrow> string list"

fun first :: "string list \<Rightarrow> string" where
  "first [] = []"
| "first (v # vs) = v"

definition queryGet :: "request \<Rightarrow> string \<Rightarrow> string" where
  "queryGet r key = first (Query r key)"

text \<open>What the handler leaves in the response writer: the text given to
  \<^verbatim>\<open>fmt.Fprint\<close> (status 200), or the message and status given to \<^verbatim>\<open>http.Error\<close>.\<close>

datatype response = Fprint string | HttpError string nat

section \<open>The nearest-neighbour selector\<close>

text \<open>
  \<^verbatim>\<open>minDistance\<close> starts at \<^verbatim>\<open>math.Inf(1)\<close>, which is no real number; the type
  \<open>minDistance\<close> adds it, and \<open>float64Less d m\<close> is the test \<^verbatim>\<open>d < m\<close>.
  \<open>distanceToFlight\<close> is the first two statements of the loop body of
  \<^verbatim>\<open>getClosestFlight\<close>, \<open>closestLoop\<close> the loop with the two variables it updates.
\<close>

datatype minDistance = PlusInf | Finite real

fun float64Less :: "real \<Rightarrow> minDistance \<Rightarrow> bool" where
  "float64Less d PlusInf = True"
| "float64Less d (Finite m) = (d < m)"

definition distanceToFlight :: "real \<Rightarrow> real \<Rightarrow> real \<Rightarrow> flightPosition \<Rightarrow> real" where
  "distanceToFlight x y z flight =
     (case pointToCartesian (flightPosition.longitude flight) (flightPosition.latitude flight)
             (real_of_int (flightPosition.altitude flight)) of
        (xFlight, yFlight, zFlight) \<Rightarrow> distance x y z xFlight yFlight zFlight)"

fun closestLoop ::
  "real \<Rightarrow> real \<Rightarrow> real \<Rightarrow> flightPosition list \<Rightarrow> minDistance \<Rightarrow> flightPosition \<Rightarrow> flightPosition"
where
  "closestLoop x y z [] minDist closestPlane = closestPlane"
| "closestLoop x y z (flight # flights) minDist closestPlane =
     (if float64Less (distanceToFlight x y z flight) minDist
      then closestLoop x y z flights (Finite (distanceToFlight x y z flight)) flight
      else closestLoop x y z flights minDist closestPlane)"

definition getFlights :: "world \<Rightarrow> real \<Rightarrow> real \<Rightarrow> error + flightPosition list" where
  "getFlights w lon lat =
     (let latitudeDelta = 0.5;
          longitudeDelta = latitudeDelta * cos lat
      in case feed w (lat + latitudeDelta) (lat - latitudeDelta)
                (lon - longitudeDelta) (lon + longitudeDelta) of
           Inl e \<Rightarrow> Inl e
         | Inr response \<Rightarrow> parseFlightsJSON response)"

definition getClosestFlight :: "world \<Rightarrow> real \<Rightarrow> real \<Rightarrow> real \<Rightarrow> error + flightPosition" where
  "getClosestFlight w lon lat alt =
     (case pointToCartesian lon lat (feetToMeters alt) of
        (x, y, z) \<Rightarrow>
          (case getFlights w lon lat of
             Inl e \<Rightarrow> Inl e
           | Inr flights \<Rightarrow> Inr (closestLoop x y z flights PlusInf zeroFlightPosition)))"

text \<open>The same for \<^verbatim>\<open>getClosestPlane\<close> and \<^verbatim>\<open>getFlights\<close> of \<^verbatim>\<open>src/main.go\<close>.\<close>

definition distanceToFlight_main :: "real \<Rightarrow> real \<Rightarrow> real \<Rightarrow> flightData \<Rightarrow> real" where
  "distanceToFlight_main x y z flight =
     (case pointToCartesian (flightData.longitude flight) (flightData.latitude flight)
             (real_of_int (flightData.altitude flight)) of
        (xFlight, yFlight, zFlight) \<Rightarrow> distance x y z xFlight yFlight zFlight)"

fun closestLoop_main ::
  "real \<Rightarrow> real \<Rightarrow> real \<Rightarrow> flightData list \<Rightarrow> minDistance \<Rightarrow> flightData \<Rightarrow> flightData"
where
  "closestLoop_main x y z [] minDist closestPlane = closestPlane"
| "closestLoop_main x y z (flight # flights) minDist closestPlane =
     (if float64Less (distanceToFlight_main x y z flight) minDist
      then closestLoop_main x y z flights (Finite (distanceToFlight_main x y z flight)) flight
      else closestLoop_main x y z flights minDist closestPlane)"

definition getFlights_main :: "world \<Rightarrow> real \<Rightarrow> real \<Rightarrow> error + flightData list" where
  "getFlights_main w lon lat =
     (let latitudeDelta = 0.2;
          longitudeDelta = latitudeDelta * cos lat
      in case feed w (lat + latitudeDelta) (lat - latitudeDelta)
                (lon - longitudeDelta) (lon + longitudeDelta) of
           Inl e \<Rightarrow> Inl e
         | Inr response \<Rightarrow> parseFlightsJSON_main response)"

definition getClosestPlane :: "world \<Rightarrow> real \<Rightarrow> real \<Rightarrow> real \<Rightarrow> error + flightData" where
  "getClosestPlane w lon lat alt =
     (case pointToCartesian lon lat (feetToMeters alt) of
        (x, y, z) \<Rightarrow>
          (case getFlights_main w lon lat of
             Inl e \<Rightarrow> Inl e
           | Inr flights \<Rightarrow> Inr (closestLoop_main x y z flights PlusInf zeroFlightData)))"

section \<open>Formatting and the request handler\<close>

text \<open>\<^verbatim>\<open>fmt.Sprintf("%s %s %s %s", a, b, c, d)\<close>.\<close>

definition Sprintf4 :: "string \<Rightarrow> string \<Rightarrow> string \<Rightarrow> string \<Rightarrow> string" where
  "Sprintf4 a b c d = a @ '' '' @ b @ '' '' @ c @ '' '' @ d"

definition getFlightDetails :: "world \<Rightarrow> string \<Rightarrow> error + string \<times> string \<times> string \<times> string" where
  "getFlightDetails w flight =
     (case clickhandler w flight of
        Inl e \<Rightarrow> Inl e
      | Inr details \<Rightarrow>
          Inr (Airline_Name details, Aircraft_Model_Text details,
               Airport_Origin_Name details, Airport_Destination_Name details))"

definition formatFlight :: "world \<Rightarrow> string \<Rightarrow> error + string" where
  "formatFlight w flight =
     (case getFlightDetails w flight of
        Inl e \<Rightarrow> Inl e
      | Inr (airline, aircraft, origin, destination) \<Rightarrow>
          (let origin' = (if origin \<noteq> [] then ''from '' @ origin else origin);
               destination' = (if destination \<noteq> [] then ''to '' @ destination else destination)
           in Inr (Sprintf4 airline aircraft origin' destination')))"

definition handler :: "world \<Rightarrow> request \<Rightarrow> error + response" where
  "handler w r =
     (if Method r = ''GET'' then
        (let lon = fst (ParseFloat w (queryGet r ''longitude''));
             lat = fst (ParseFloat w (queryGet r ''latitude''));
             alt = fst (ParseFloat w (queryGet r ''altitude''))
         in case getClosestFlight w lon lat alt of
              Inl e \<Rightarrow> Inl e
            | Inr flight \<Rightarrow>
                (case formatFlight w (fr24id flight) of
                   Inl e \<Rightarrow> Inl e
                 | Inr text \<Rightarrow>
                     Inr (Fprint (if text = ''   '' then ''No aircraft found nearby'' else text))))
      else Inr (HttpError ''Incorrect method'' 405))"

text \<open>\<^verbatim>\<open>formatFlight\<close> and \<^verbatim>\<open>handler\<close> of \<^verbatim>\<open>src/main.go\<close>;
  the format is \<^verbatim>\<open>"%s %s from %s to %s"\<close>.\<close>

definition formatFlight_main :: "tables \<Rightarrow> flightData \<Rightarrow> string" where
  "formatFlight_main t flight =
     (let airline = lookup (icaoAirlines t) (icaoAirline flight);
          aircraft = lookup (icaoTypes t) (icaoType flight);
          departing = lookup (iataAirports t) (iataDeparting flight);
          arriving = lookup (iataAirports t) (iataArriving flight)
      in airline @ '' '' @ aircraft @ '' from '' @ departing @ '' to '' @ arriving)"

definition handler_main :: "tables \<Rightarrow> world \<Rightarrow> request \<Rightarrow> error + response" where
  "handler_main t w r =
     (if Method r = ''GET'' then
        (let lon = fst (ParseFloat w (queryGet r ''longitude''));
             lat = fst (ParseFloat w (queryGet r ''latitude''));
             alt = fst (ParseFloat w (queryGet r ''altitude''))
         in case getClosestPlane w lon lat alt of
              Inl e \<Rightarrow> Inl e
            | Inr flight \<Rightarrow> Inr (Fprint (formatFlight_main t flight)))
      else Inr (HttpError ''Incorrect method'' 405))"

section \<open>The fold of the selector, and sample inputs\<close>


text \<open>
  One aircraft of the feed: an array of nineteen entries, of which \<^verbatim>\<open>src/main.go\<close> reads
  the indices 1, 2, 4, 8, 11, 12 and 18.
\<close>

definition status19 ::
  "real \<Rightarrow> real \<Rightarrow> real \<Rightarrow> string \<Rightarrow> string \<Rightarrow> string \<Rightarrow> string \<Rightarrow> json" where
  "status19 lat lon alt ty dep arr airline = JArr
     [JStr ''4CA2B1'', JNum lat, JNum lon, JNum 90, JNum alt, JNum 250, JStr ''7000'',
      JStr ''F-EGLL1'', JStr ty, JStr ''EI-DEA'', JNum 1600000000, JStr dep, JStr arr,
      JStr ''FR123'', JNum 0, JNum 0, JStr ''RYR123'', JNum 0, JStr airline]"

text \<open>A snapshot with three aircraft above the point of longitude 0 and latitude 0, and
  the two bookkeeping keys.\<close>

definition threeFlights :: json where
  "threeFlights = JObj
     [(''2f5a1b01'', status19 0 0 5000 ''B738'' ''DUB'' ''STN'' ''RYR''),
      (''full_count'', JNum 3),
      (''2f5a1b02'', status19 0 0 100 ''A320'' ''LHR'' ''CDG'' ''BAW''),
      (''version'', JNum 4),
      (''2f5a1b03'', status19 0 0 20000 ''A388'' ''DXB'' ''JFK'' ''UAE'')]"

definition flightAt :: "string \<Rightarrow> int \<Rightarrow> flightPosition" where
  "flightAt key alt =
     \<lparr>fr24id = key, flightPosition.longitude = 0, flightPosition.latitude = 0,
      flightPosition.altitude = alt\<rparr>"

definition planeAt :: "string \<Rightarrow> string \<Rightarrow> string \<Rightarrow> string \<Rightarrow> int \<Rightarrow> flightData" where
  "planeAt ty airline dep arr alt =
     \<lparr>icaoType = ty, icaoAirline = airline, iataDeparting = dep, iataArriving = arr,
      flightData.longitude = 0, flightData.latitude = 0, flightData.altitude = alt\<rparr>"

text \<open>
  A world whose feed answers every request with the same decoded body, whose details
  endpoint knows one flight, and whose \<open>ParseFloat\<close> accepts the numeral \<open>0\<close> and
  reports an error, with the value 0, for every other string.
\<close>

definition someDetails :: FlightDetailsJSON where
  "someDetails =
     \<lparr>Aircraft_Model_Text = ''Airbus A320'', Airline_Name = ''British Airways'',
      Airport_Origin_Name = ''London Heathrow'', Airport_Destination_Name = ''Paris Orly''\<rparr>"

definition noDetails :: FlightDetailsJSON where
  "noDetails =
     \<lparr>Aircraft_Model_Text = [], Airline_Name = [], Airport_Origin_Name = [],
      Airport_Destination_Name = []\<rparr>"

definition worldOf :: "json option \<Rightarrow> world" where
  "worldOf response =
     \<lparr>ParseFloat = (\<lambda>s. if s = ''0'' then (0, False) else (0, True)),
      feed = (\<lambda>n s w e. Inr response),
      clickhandler = (\<lambda>flight. if flight = ''2f5a1b02'' then Inr someDetails
                              else Inr noDetails)\<rparr>"

section \<open>Well-formed feed entries, and more sample inputs\<close>

text \<open>
  An entry is well formed for a variant when every index that variant reads exists and
  holds a value of the asserted type: the indices 1, 2 and 4 with numbers for
  \<^verbatim>\<open>src/unnamed/part_000\<close>, and the indices 8, 11, 12 and 18 with strings in addition for
  \<^verbatim>\<open>src/main.go\<close>. \<open>flightEntries\<close> is what is left of the map after the two
  \<^verbatim>\<open>delete\<close> calls.
\<close>

fun isNum :: "json \<Rightarrow> bool" where
  "isNum (JNum f) = True"
| "isNum _ = False"

fun isStr :: "json \<Rightarrow> bool" where
  "isStr (JStr s) = True"
| "isStr _ = False"

fun isObject :: "json option \<Rightarrow> bool" where
  "isObject (Some (JObj m)) = True"
| "isObject _ = False"

fun positionOk :: "json \<Rightarrow> bool" where
  "positionOk (JArr status) =
     (4 < length status \<and> isNum (status ! 1) \<and> isNum (status ! 2) \<and> isNum (status ! 4))"
| "positionOk _ = False"

fun dataOk :: "json \<Rightarrow> bool" where
  "dataOk (JArr status) =
     (18 < length status \<and> isNum (status ! 1) \<and> isNum (status ! 2) \<and> isNum (status ! 4)
      \<and> isStr (status ! 8) \<and> isStr (status ! 11) \<and> isStr (status ! 12)
      \<and> isStr (status ! 18))"
| "dataOk _ = False"

definition flightEntries :: "(string \<times> json) list \<Rightarrow> (string \<times> json) list" where
  "flightEntries m = filter (\<lambda>(k, v). k \<noteq> ''full_count'' \<and> k \<noteq> ''version'') m"

text \<open>A snapshot without aircraft; a snapshot whose second aircraft has an array that
  ends before the altitude index; a snapshot with two aircraft above the point of
  longitude 0 and latitude 0, at 10000 and at 6000.\<close>

definition emptySnapshot :: json where
  "emptySnapshot = JObj [(''full_count'', JNum 0), (''version'', JNum 4)]"

definition mixedBatch :: json where
  "mixedBatch = JObj
     [(''full_count'', JNum 2),
      (''version'', JNum 4),
      (''2f5a1b01'', status19 0 0 5000 ''B738'' ''DUB'' ''STN'' ''RYR''),
      (''2f5a1b02'', JArr [JStr ''4CA2B2'', JNum 0, JNum 0, JNum 180])]"

definition twoFlights :: json where
  "twoFlights = JObj
     [(''2f5a1b01'', status19 0 0 10000 ''B738'' ''DUB'' ''STN'' ''RYR''),
      (''2f5a1b02'', status19 0 0 6000 ''A320'' ''LHR'' ''CDG'' ''BAW''),
      (''full_count'', JNum 2),
      (''version'', JNum 4)]"

text \<open>Requests: a \<^verbatim>\<open>GET\<close> without parameters, a \<^verbatim>\<open>GET\<close> with the three parameters, and
  tables that hold nothing.\<close>

definition bareGet :: request where
  "bareGet = \<lparr>Method = ''GET'', Query = (\<lambda>key. [])\<rparr>"


definition noTables :: tables where
  "noTables = \<lparr>icaoAirlines = Map.empty, icaoTypes = Map.empty, iataAirports = Map.empty\<rparr>"

section \<open>Properties of the numeric core\<close>

lemma N_zero: "N 0 = 6378137"
  by (simp add: N_def)

lemma pointToCartesian_equator:
  "pointToCartesian 0 0 h = (6378137 + h, 0, 0)"
  by (simp add: pointToCartesian_def N_zero)

lemma distance_on_axis: "distance x 0 0 x' 0 0 = \<bar>x' - x\<bar>"
  by (simp add: distance_def)

text \<open>
  C7. At longitude 0, latitude 0 and altitude 0 the transform yields the point
  (6378137, 0, 0): \<open>x\<close> is the semi-major axis, \<open>y\<close> and \<open>z\<close> are 0. The formulas of
  the specification, with \<open>a = 6378137.0\<close> and \<open>e2 = 0.006694379990197619\<close>, give the
  same point there.
\<close>

theorem C7_transform_origin:
  "pointToCartesian 0 0 0 = (6378137, 0, 0)
   \<and> toCartesian_spec 0 0 0 = pointToCartesian 0 0 0
   \<and> fst (pointToCartesian 0 0 0) = wgs84_a"
  by (simp add: pointToCartesian_def N_def toCartesian_spec_def N_spec_def wgs84_a_def)

section \<open>The selector returns the first candidate of least distance\<close>











section \<open>The decoder entry by entry\<close>

text \<open>
  The body of the decoding loop yields a record exactly for the well-formed entries,
  and panics for every other entry; it never ends the process.
\<close>

lemma assertFloat64_isNum: "isNum j \<Longrightarrow> \<exists>f. j = JNum f \<and> assertFloat64 j = Inr f"
  by (cases j) simp_all

lemma assertString_isStr: "isStr j \<Longrightarrow> \<exists>s. j = JStr s \<and> assertString j = Inr s"
  by (cases j) simp_all

lemma float64At_ok:
  "i < length status \<Longrightarrow> isNum (status ! i) \<Longrightarrow>
   \<exists>f. status ! i = JNum f \<and> float64At status i = Inr f"
  by (simp add: float64At_def assertFloat64_isNum)

lemma stringAt_ok:
  "i < length status \<Longrightarrow> isStr (status ! i) \<Longrightarrow>
   \<exists>s. status ! i = JStr s \<and> stringAt status i = Inr s"
  by (simp add: stringAt_def assertString_isStr)

lemma float64At_Inr:
  "float64At status i = Inr f \<Longrightarrow> i < length status \<and> status ! i = JNum f"
  by (cases "status ! i") (auto simp: float64At_def split: if_splits)

lemma stringAt_Inr:
  "stringAt status i = Inr s \<Longrightarrow> i < length status \<and> status ! i = JStr s"
  by (cases "status ! i") (auto simp: stringAt_def split: if_splits)

lemma float64At_not_fatal: "float64At status i \<noteq> Inl LogFatal"
  by (cases "status ! i") (auto simp: float64At_def)

lemma stringAt_not_fatal: "stringAt status i \<noteq> Inl LogFatal"
  by (cases "status ! i") (auto simp: stringAt_def)

lemma planeStatus_ok:
  assumes "positionOk v"
  shows "\<exists>plane. planeStatus key v = Inr plane \<and> fr24id plane = key"
proof -
  from assms obtain status where v: "v = JArr status" by (cases v) simp_all
  from assms v have len: "4 < length status" and n: "isNum (status ! 1)" "isNum (status ! 2)"
      "isNum (status ! 4)" by simp_all
  from len have l: "1 < length status" "2 < length status" by simp_all
  from float64At_ok [OF l(1) n(1)] obtain a where a: "float64At status 1 = Inr a" by blast
  from float64At_ok [OF l(2) n(2)] obtain b where b: "float64At status 2 = Inr b" by blast
  from float64At_ok [OF len n(3)] obtain c where c: "float64At status 4 = Inr c" by blast
  show ?thesis using a b c by (simp add: planeStatus_def v)
qed

lemma planeStatus_Inr: "planeStatus key v = Inr plane \<Longrightarrow> positionOk v"
  by (cases v) (auto simp: planeStatus_def split: sum.splits dest!: float64At_Inr)

lemma planeStatus_not_fatal: "planeStatus key v \<noteq> Inl LogFatal"
  using float64At_not_fatal
  by (cases v) (auto simp: planeStatus_def split: sum.splits)

lemma planeStatus_bad:
  assumes "\<not> positionOk v"
  shows "\<exists>e. planeStatus key v = Inl e \<and> e \<noteq> LogFatal"
proof (cases "planeStatus key v")
  case (Inl e)
  then show ?thesis using planeStatus_not_fatal [of key v] by auto
next
  case (Inr plane)
  then show ?thesis using assms planeStatus_Inr by blast
qed

lemma planeStatus_main_ok:
  assumes "dataOk v"
  shows "\<exists>plane. planeStatus_main v = Inr plane"
proof -
  from assms obtain status where v: "v = JArr status" by (cases v) simp_all
  from assms v have len: "18 < length status" and n: "isNum (status ! 1)" "isNum (status ! 2)"
      "isNum (status ! 4)" and s: "isStr (status ! 8)" "isStr (status ! 11)" "isStr (status ! 12)"
      "isStr (status ! 18)" by simp_all
  from len have l: "1 < length status" "2 < length status" "4 < length status"
      "8 < length status" "11 < length status" "12 < length status" by simp_all
  from float64At_ok [OF l(1) n(1)] obtain a where a: "float64At status 1 = Inr a" by blast
  from float64At_ok [OF l(2) n(2)] obtain b where b: "float64At status 2 = Inr b" by blast
  from float64At_ok [OF l(3) n(3)] obtain c where c: "float64At status 4 = Inr c" by blast
  from stringAt_ok [OF l(4) s(1)] obtain d where d: "stringAt status 8 = Inr d" by blast
  from stringAt_ok [OF l(5) s(2)] obtain e where e: "stringAt status 11 = Inr e" by blast
  from stringAt_ok [OF l(6) s(3)] obtain f where f: "stringAt status 12 = Inr f" by blast
  from stringAt_ok [OF len s(4)] obtain g where g: "stringAt status 18 = Inr g" by blast
  show ?thesis using a b c d e f g by (simp add: planeStatus_main_def v)
qed

lemma planeStatus_main_Inr: "planeStatus_main v = Inr plane \<Longrightarrow> dataOk v"
  by (cases v)
     (auto simp: planeStatus_main_def split: sum.splits dest!: float64At_Inr stringAt_Inr)

lemma planeStatus_main_not_fatal: "planeStatus_main v \<noteq> Inl LogFatal"
  using float64At_not_fatal stringAt_not_fatal
  by (cases v) (auto simp: planeStatus_main_def split: sum.splits)

lemma planeStatus_main_bad:
  assumes "\<not> dataOk v"
  shows "\<exists>e. planeStatus_main v = Inl e \<and> e \<noteq> LogFatal"
proof (cases "planeStatus_main v")
  case (Inl e)
  then show ?thesis using planeStatus_main_not_fatal [of v] by auto
next
  case (Inr plane)
  then show ?thesis using assms planeStatus_main_Inr by blast
qed

lemma parseLoop_ok:
  "\<forall>(k, v)\<in>set m. positionOk v \<Longrightarrow>
   \<exists>flights. parseLoop m acc = Inr (acc @ flights) \<and> map fr24id flights = map fst m"
proof (induction m arbitrary: acc)
  case Nil
  show ?case by simp
next
  case (Cons kv m)
  obtain k v where kv: "kv = (k, v)" by (cases kv)
  from Cons.prems kv have "positionOk v" by simp
  from planeStatus_ok [OF this] obtain plane where
    p: "planeStatus k v = Inr plane" "fr24id plane = k" by blast
  from Cons.prems have "\<forall>(k, v)\<in>set m. positionOk v" by simp
  from Cons.IH [OF this, of "acc @ [plane]"] obtain flights where
    f: "parseLoop m (acc @ [plane]) = Inr ((acc @ [plane]) @ flights)"
       "map fr24id flights = map fst m" by blast
  have "parseLoop (kv # m) acc = Inr (acc @ (plane # flights))
      \<and> map fr24id (plane # flights) = map fst (kv # m)"
    using p f by (simp add: kv)
  then show ?case by blast
qed

lemma parseLoop_bad:
  "\<exists>(k, v)\<in>set m. \<not> positionOk v \<Longrightarrow> \<exists>e. parseLoop m acc = Inl e \<and> e \<noteq> LogFatal"
proof (induction m arbitrary: acc)
  case Nil
  then show ?case by simp
next
  case (Cons kv m)
  obtain k v where kv: "kv = (k, v)" by (cases kv)
  show ?case
  proof (cases "positionOk v")
    case True
    from planeStatus_ok [OF this] obtain plane where
      p: "planeStatus k v = Inr plane" by blast
    from Cons.prems True kv have "\<exists>(k, v)\<in>set m. \<not> positionOk v" by auto
    from Cons.IH [OF this, of "acc @ [plane]"] show ?thesis by (simp add: kv p)
  next
    case False
    from planeStatus_bad [OF this, of k] show ?thesis by (auto simp: kv)
  qed
qed

lemma parseLoop_main_ok:
  "\<forall>(k, v)\<in>set m. dataOk v \<Longrightarrow>
   \<exists>flights. parseLoop_main m acc = Inr (acc @ flights) \<and> length flights = length m"
proof (induction m arbitrary: acc)
  case Nil
  show ?case by simp
next
  case (Cons kv m)
  obtain k v where kv: "kv = (k, v)" by (cases kv)
  from Cons.prems kv have "dataOk v" by simp
  from planeStatus_main_ok [OF this] obtain plane where
    p: "planeStatus_main v = Inr plane" by blast
  from Cons.prems have "\<forall>(k, v)\<in>set m. dataOk v" by simp
  from Cons.IH [OF this, of "acc @ [plane]"] obtain flights where
    f: "parseLoop_main m (acc @ [plane]) = Inr ((acc @ [plane]) @ flights)"
       "length flights = length m" by blast
  have "parseLoop_main (kv # m) acc = Inr (acc @ (plane # flights))
      \<and> length (plane # flights) = length (kv # m)"
    using p f by (simp add: kv)
  then show ?case by blast
qed

lemma parseLoop_main_bad:
  "\<exists>(k, v)\<in>set m. \<not> dataOk v \<Longrightarrow> \<exists>e. parseLoop_main m acc = Inl e \<and> e \<noteq> LogFatal"
proof (induction m arbitrary: acc)
  case Nil
  then show ?case by simp
next
  case (Cons kv m)
  obtain k v where kv: "kv = (k, v)" by (cases kv)
  show ?case
  proof (cases "dataOk v")
    case True
    from planeStatus_main_ok [OF this] obtain plane where
      p: "planeStatus_main v = Inr plane" by blast
    from Cons.prems True kv have "\<exists>(k, v)\<in>set m. \<not> dataOk v" by auto
    from Cons.IH [OF this, of "acc @ [plane]"] show ?thesis by (simp add: kv p)
  next
    case False
    from planeStatus_main_bad [OF this] show ?thesis by (auto simp: kv)
  qed
qed

lemma delete_delete: "delete (delete m ''full_count'') ''version'' = flightEntries m"
  by (induction m) (auto simp: delete_def flightEntries_def)

lemma parseFlightsJSON_object:
  "parseFlightsJSON (Some (JObj m)) = parseLoop (flightEntries m) []"
  by (simp add: parseFlightsJSON_def delete_delete)

lemma parseFlightsJSON_main_object:
  "parseFlightsJSON_main (Some (JObj m)) = parseLoop_main (flightEntries m) []"
  by (simp add: parseFlightsJSON_main_def delete_delete)

lemma assertMap_not_object: "\<not> isObject response \<Longrightarrow> assertMap response = Inl TypeAssertionPanic"
  by (cases response rule: isObject.cases) simp_all

lemma length_filter_key:
  "distinct (map fst m) \<Longrightarrow> key \<in> fst ` set m \<Longrightarrow>
   Suc (length (filter (\<lambda>(k, v). k \<noteq> key) m)) = length m"
proof (induction m)
  case Nil
  then show ?case by simp
next
  case (Cons kv m)
  obtain k v where kv: "kv = (k, v)" by (cases kv)
  show ?case
  proof (cases "k = key")
    case True
    with Cons.prems kv have "key \<notin> fst ` set m" by auto
    then have "filter (\<lambda>(k, v). k \<noteq> key) m = m"
      by (force simp: filter_id_conv)
    then show ?thesis using True kv by simp
  next
    case False
    with Cons.prems kv have "distinct (map fst m)" "key \<in> fst ` set m" by auto
    from Cons.IH [OF this] show ?thesis using False kv by simp
  qed
qed

lemma length_flightEntries:
  assumes "distinct (map fst m)" "''full_count'' \<in> fst ` set m" "''version'' \<in> fst ` set m"
  shows "length (flightEntries m) + 2 = length m"
proof -
  let ?m1 = "filter (\<lambda>(k, v). k \<noteq> ''full_count'') m"
  have fe: "flightEntries m = filter (\<lambda>(k, v). k \<noteq> ''version'') ?m1"
    by (induction m) (auto simp: flightEntries_def)
  have 1: "Suc (length ?m1) = length m"
    using length_filter_key [OF assms(1,2)] .
  have d: "distinct (map fst ?m1)" using assms(1) by (simp add: distinct_map_filter)
  have "''version'' \<in> fst ` set ?m1" using assms(3) by force
  from length_filter_key [OF d this] have "Suc (length (flightEntries m)) = length ?m1"
    by (simp add: fe)
  with 1 show ?thesis by simp
qed

lemma positionOk_status19: "positionOk (status19 lat lon alt ty dep arr airline)"
  by (simp add: status19_def)

lemma dataOk_status19: "dataOk (status19 lat lon alt ty dep arr airline)"
  by (simp add: status19_def)

lemma distanceToFlight_above_origin:
  "distanceToFlight x 0 0 (flightAt key alt) = \<bar>6378137 + real_of_int alt - x\<bar>"
  by (simp add: distanceToFlight_def flightAt_def pointToCartesian_equator distance_on_axis)

lemma distanceToFlight_main_above_origin:
  "distanceToFlight_main x 0 0 (planeAt ty al dep arr alt) = \<bar>6378137 + real_of_int alt - x\<bar>"
  by (simp add: distanceToFlight_main_def planeAt_def pointToCartesian_equator distance_on_axis)

lemma getFlights_worldOf: "getFlights (worldOf response) lon lat = parseFlightsJSON response"
  by (simp add: getFlights_def worldOf_def)

lemma getFlights_main_worldOf:
  "getFlights_main (worldOf response) lon lat = parseFlightsJSON_main response"
  by (simp add: getFlights_main_def worldOf_def)

lemma parse_empty:
  "parseFlightsJSON (Some emptySnapshot) = Inr []"
  "parseFlightsJSON_main (Some emptySnapshot) = Inr []"
  by (simp_all add: parseFlightsJSON_def parseFlightsJSON_main_def emptySnapshot_def delete_def)

lemma parse_two:
  "parseFlightsJSON (Some twoFlights) =
     Inr [flightAt ''2f5a1b01'' 10000, flightAt ''2f5a1b02'' 6000]"
  by (simp add: parseFlightsJSON_def twoFlights_def delete_def planeStatus_def status19_def
        float64At_def float64ToInt_def flightAt_def)

lemma parse_two_main:
  "parseFlightsJSON_main (Some twoFlights) =
     Inr [planeAt ''B738'' ''RYR'' ''DUB'' ''STN'' 10000,
          planeAt ''A320'' ''BAW'' ''LHR'' ''CDG'' 6000]"
  by (simp add: parseFlightsJSON_main_def twoFlights_def delete_def planeStatus_main_def
        status19_def float64At_def stringAt_def float64ToInt_def planeAt_def)

section \<open>Decoding a snapshot\<close>

text \<open>
  C6. For a snapshot whose flight entries are all well formed, the decoder returns one
  record for each entry whose key is neither \<^verbatim>\<open>full_count\<close> nor \<^verbatim>\<open>version\<close>, in the
  order of the entries and, in \<^verbatim>\<open>src/unnamed/part_000\<close>, with the key of the entry as
  identifier; no record stands for a bookkeeping key. When the keys are distinct, as in a
  Go map, and both bookkeeping keys are present, the number of records is the number of
  entries less two.
\<close>

theorem C6_bookkeeping_excluded:
  "((\<forall>(k, v)\<in>set (flightEntries m). positionOk v) \<longrightarrow>
      (\<exists>flights. parseFlightsJSON (Some (JObj m)) = Inr flights
         \<and> length flights = length (flightEntries m)
         \<and> map fr24id flights = map fst (flightEntries m)
         \<and> ''full_count'' \<notin> fr24id ` set flights \<and> ''version'' \<notin> fr24id ` set flights
         \<and> (distinct (map fst m) \<and> ''full_count'' \<in> fst ` set m \<and> ''version'' \<in> fst ` set m
              \<longrightarrow> length flights + 2 = length m)))
 \<and> ((\<forall>(k, v)\<in>set (flightEntries m). dataOk v) \<longrightarrow>
      (\<exists>planes. parseFlightsJSON_main (Some (JObj m)) = Inr planes
         \<and> length planes = length (flightEntries m)
         \<and> (distinct (map fst m) \<and> ''full_count'' \<in> fst ` set m \<and> ''version'' \<in> fst ` set m
              \<longrightarrow> length planes + 2 = length m)))"
proof (intro conjI impI)
  assume "\<forall>(k, v)\<in>set (flightEntries m). positionOk v"
  from parseLoop_ok [OF this, of "[]"] obtain flights where
    f: "parseLoop (flightEntries m) [] = Inr flights" "map fr24id flights = map fst (flightEntries m)"
    by auto
  have len: "length flights = length (flightEntries m)"
    using f(2) by (metis length_map)
  have "set (map fr24id flights) = fst ` set (flightEntries m)" using f(2) by simp
  then have keys: "''full_count'' \<notin> fr24id ` set flights" "''version'' \<notin> fr24id ` set flights"
    by (auto simp: flightEntries_def)
  show "\<exists>flights. parseFlightsJSON (Some (JObj m)) = Inr flights
         \<and> length flights = length (flightEntries m)
         \<and> map fr24id flights = map fst (flightEntries m)
         \<and> ''full_count'' \<notin> fr24id ` set flights \<and> ''version'' \<notin> fr24id ` set flights
         \<and> (distinct (map fst m) \<and> ''full_count'' \<in> fst ` set m \<and> ''version'' \<in> fst ` set m
              \<longrightarrow> length flights + 2 = length m)"
    using f len keys length_flightEntries [of m]
    by (intro exI [of _ flights]) (simp add: parseFlightsJSON_object)
next
  assume "\<forall>(k, v)\<in>set (flightEntries m). dataOk v"
  from parseLoop_main_ok [OF this, of "[]"] obtain planes where
    f: "parseLoop_main (flightEntries m) [] = Inr planes" "length planes = length (flightEntries m)"
    by auto
  show "\<exists>planes. parseFlightsJSON_main (Some (JObj m)) = Inr planes
         \<and> length planes = length (flightEntries m)
         \<and> (distinct (map fst m) \<and> ''full_count'' \<in> fst ` set m \<and> ''version'' \<in> fst ` set m
              \<longrightarrow> length planes + 2 = length m)"
    using f length_flightEntries [of m]
    by (intro exI [of _ planes]) (simp add: parseFlightsJSON_main_object)
qed

text \<open>
  The theorem at the sample snapshot of three aircraft and the two bookkeeping keys:
  three records.
\<close>

theorem C6_witness:
  "(\<exists>flights. parseFlightsJSON (Some threeFlights) = Inr flights \<and> length flights = 3)
 \<and> (\<exists>planes. parseFlightsJSON_main (Some threeFlights) = Inr planes \<and> length planes = 3)"
proof -
  let ?a = "status19 0 0 5000 ''B738'' ''DUB'' ''STN'' ''RYR''"
  let ?b = "status19 0 0 100 ''A320'' ''LHR'' ''CDG'' ''BAW''"
  let ?c = "status19 0 0 20000 ''A388'' ''DXB'' ''JFK'' ''UAE''"
  let ?m = "[(''2f5a1b01'', ?a), (''full_count'', JNum 3), (''2f5a1b02'', ?b),
             (''version'', JNum 4), (''2f5a1b03'', ?c)]"
  have m: "threeFlights = JObj ?m" by (simp add: threeFlights_def)
  have fe: "flightEntries ?m = [(''2f5a1b01'', ?a), (''2f5a1b02'', ?b), (''2f5a1b03'', ?c)]"
    by (simp add: flightEntries_def)
  have h1: "\<forall>(k, v)\<in>set (flightEntries ?m). positionOk v"
    unfolding fe by (simp add: positionOk_status19)
  have h2: "\<forall>(k, v)\<in>set (flightEntries ?m). dataOk v"
    unfolding fe by (simp add: dataOk_status19)
  have len: "length (flightEntries ?m) = 3" unfolding fe by simp
  from C6_bookkeeping_excluded [of ?m] h1 h2 show ?thesis unfolding m len by blast
qed

text \<open>
  C3, as the code has it. A flight entry that is not well formed is not dropped: the
  decoder panics, whatever the other entries are, and returns no record at all. This
  holds in particular for an entry whose array ends before the altitude index 4.
\<close>

theorem C3_malformed_entry_panics:
  "((\<exists>(k, v)\<in>set (flightEntries m). \<not> positionOk v) \<longrightarrow>
      (\<exists>e. parseFlightsJSON (Some (JObj m)) = Inl e \<and> e \<noteq> LogFatal))
 \<and> ((\<exists>(k, v)\<in>set (flightEntries m). \<not> dataOk v) \<longrightarrow>
      (\<exists>e. parseFlightsJSON_main (Some (JObj m)) = Inl e \<and> e \<noteq> LogFatal))
 \<and> ((k, JArr status) \<in> set (flightEntries m) \<and> length status \<le> 4 \<longrightarrow>
      (\<exists>e. parseFlightsJSON (Some (JObj m)) = Inl e \<and> e \<noteq> LogFatal)
    \<and> (\<exists>e. parseFlightsJSON_main (Some (JObj m)) = Inl e \<and> e \<noteq> LogFatal))"
proof (intro conjI impI)
  assume "\<exists>(k, v)\<in>set (flightEntries m). \<not> positionOk v"
  from parseLoop_bad [OF this, of "[]"]
  show "\<exists>e. parseFlightsJSON (Some (JObj m)) = Inl e \<and> e \<noteq> LogFatal"
    by (simp add: parseFlightsJSON_object)
next
  assume "\<exists>(k, v)\<in>set (flightEntries m). \<not> dataOk v"
  from parseLoop_main_bad [OF this, of "[]"]
  show "\<exists>e. parseFlightsJSON_main (Some (JObj m)) = Inl e \<and> e \<noteq> LogFatal"
    by (simp add: parseFlightsJSON_main_object)
next
  assume a: "(k, JArr status) \<in> set (flightEntries m) \<and> length status \<le> 4"
  then have "\<not> positionOk (JArr status)" by simp
  with a have "\<exists>(k, v)\<in>set (flightEntries m). \<not> positionOk v" by blast
  from parseLoop_bad [OF this, of "[]"]
  show "\<exists>e. parseFlightsJSON (Some (JObj m)) = Inl e \<and> e \<noteq> LogFatal"
    by (simp add: parseFlightsJSON_object)
next
  assume a: "(k, JArr status) \<in> set (flightEntries m) \<and> length status \<le> 4"
  then have "\<not> dataOk (JArr status)" by simp
  with a have "\<exists>(k, v)\<in>set (flightEntries m). \<not> dataOk v" by blast
  from parseLoop_main_bad [OF this, of "[]"]
  show "\<exists>e. parseFlightsJSON_main (Some (JObj m)) = Inl e \<and> e \<noteq> LogFatal"
    by (simp add: parseFlightsJSON_main_object)
qed

text \<open>
  The decoder at a snapshot of one well-formed aircraft and one aircraft whose array
  has no index 4: it panics with an index out of range, and does not return one record.
\<close>

theorem C3_counterexample:
  "parseFlightsJSON (Some mixedBatch) = Inl IndexOutOfRangePanic
   \<and> parseFlightsJSON_main (Some mixedBatch) = Inl IndexOutOfRangePanic"
  by (simp add: parseFlightsJSON_def parseFlightsJSON_main_def mixedBatch_def delete_def
        planeStatus_def planeStatus_main_def status19_def float64At_def stringAt_def
        float64ToInt_def)

text \<open>
  The theorem at the same snapshot.
\<close>

theorem C3_witness:
  "(\<exists>e. parseFlightsJSON (Some mixedBatch) = Inl e \<and> e \<noteq> LogFatal)
 \<and> (\<exists>e. parseFlightsJSON_main (Some mixedBatch) = Inl e \<and> e \<noteq> LogFatal)"
proof -
  let ?short = "JArr [JStr ''4CA2B2'', JNum 0, JNum 0, JNum 180]"
  let ?m = "[(''full_count'', JNum 2), (''version'', JNum 4),
      (''2f5a1b01'', status19 0 0 5000 ''B738'' ''DUB'' ''STN'' ''RYR''),
      (''2f5a1b02'', ?short)]"
  have m: "mixedBatch = JObj ?m" by (simp add: mixedBatch_def)
  have fe: "flightEntries ?m = [(''2f5a1b01'', status19 0 0 5000 ''B738'' ''DUB'' ''STN'' ''RYR''),
      (''2f5a1b02'', ?short)]" by (simp add: flightEntries_def)
  have h1: "\<exists>(k, v)\<in>set (flightEntries ?m). \<not> positionOk v" unfolding fe by simp
  have h2: "\<exists>(k, v)\<in>set (flightEntries ?m). \<not> dataOk v" unfolding fe by simp
  from C3_malformed_entry_panics [of ?m] h1 h2 show ?thesis unfolding m by blast
qed

text \<open>
  C4, as the code has it. When what \<^verbatim>\<open>json.Unmarshal\<close> left is not a JSON object
  (an array, a string, a number, \<^verbatim>\<open>null\<close>, or nothing because the bytes did not parse),
  the decoder panics at its first type assertion. Nothing recovers from the panic: the
  handler of a \<^verbatim>\<open>GET\<close> request whose feed answers so writes no response.
\<close>

theorem C4_non_object_panics:
  "\<not> isObject response \<longrightarrow>
     parseFlightsJSON response = Inl TypeAssertionPanic
   \<and> parseFlightsJSON_main response = Inl TypeAssertionPanic
   \<and> (feed w = (\<lambda>n s w' e. Inr response) \<and> Method r = ''GET'' \<longrightarrow>
        handler w r = Inl TypeAssertionPanic \<and> handler_main t w r = Inl TypeAssertionPanic)"
proof (intro impI conjI)
  assume a: "\<not> isObject response"
  show p: "parseFlightsJSON response = Inl TypeAssertionPanic"
    by (simp add: parseFlightsJSON_def assertMap_not_object [OF a])
  show pm: "parseFlightsJSON_main response = Inl TypeAssertionPanic"
    by (simp add: parseFlightsJSON_main_def assertMap_not_object [OF a])
  assume b: "feed w = (\<lambda>n s w' e. Inr response) \<and> Method r = ''GET''"
  have "getFlights w lon lat = Inl TypeAssertionPanic" for lon lat
    using b p by (simp add: getFlights_def)
  then have "getClosestFlight w lon lat alt = Inl TypeAssertionPanic" for lon lat alt
    by (simp add: getClosestFlight_def split: prod.splits)
  then show "handler w r = Inl TypeAssertionPanic"
    using b by (simp add: handler_def)
  have "getFlights_main w lon lat = Inl TypeAssertionPanic" for lon lat
    using b pm by (simp add: getFlights_main_def)
  then have "getClosestPlane w lon lat alt = Inl TypeAssertionPanic" for lon lat alt
    by (simp add: getClosestPlane_def split: prod.splits)
  then show "handler_main t w r = Inl TypeAssertionPanic"
    using b by (simp add: handler_main_def)
qed

text \<open>
  The handler at a feed that answers with the JSON array \<^verbatim>\<open>[]\<close>: a panic, and no
  response that reports the absence of a result.
\<close>

theorem C4_counterexample:
  "parseFlightsJSON (Some (JArr [])) = Inl TypeAssertionPanic
 \<and> handler (worldOf (Some (JArr []))) bareGet = Inl TypeAssertionPanic
 \<and> handler_main noTables (worldOf (Some (JArr []))) bareGet = Inl TypeAssertionPanic"
  by (simp add: handler_def handler_main_def bareGet_def getClosestFlight_def
        getClosestPlane_def getFlights_worldOf getFlights_main_worldOf parseFlightsJSON_def
        parseFlightsJSON_main_def split: prod.splits)

text \<open>
  The theorem at a feed whose body does not parse.
\<close>

theorem C4_witness:
  "\<not> isObject None
 \<and> parseFlightsJSON None = Inl TypeAssertionPanic
 \<and> parseFlightsJSON_main None = Inl TypeAssertionPanic
 \<and> handler (worldOf None) bareGet = Inl TypeAssertionPanic
 \<and> handler_main noTables (worldOf None) bareGet = Inl TypeAssertionPanic"
  using C4_non_object_panics [of None "worldOf None" bareGet noTables]
  by (simp add: worldOf_def bareGet_def)

section \<open>The selector on no candidates, and the unit of the altitudes\<close>

text \<open>
  C5. On an empty list of candidates the loop returns the record it started with, the
  zero value of the record type, which is how the code says that nothing was found;
  \<^verbatim>\<open>getClosestFlight\<close> and \<^verbatim>\<open>getClosestPlane\<close> return it as a value, without panic
  and without ending the process.
\<close>

theorem C5_empty_candidates:
  "(getFlights w lon lat = Inr [] \<longrightarrow> getClosestFlight w lon lat alt = Inr zeroFlightPosition)
 \<and> (getFlights_main w lon lat = Inr [] \<longrightarrow> getClosestPlane w lon lat alt = Inr zeroFlightData)
 \<and> closestLoop x y z [] PlusInf zeroFlightPosition = zeroFlightPosition
 \<and> closestLoop_main x y z [] PlusInf zeroFlightData = zeroFlightData"
  by (simp add: getClosestFlight_def getClosestPlane_def split: prod.splits)

text \<open>
  The theorem at a snapshot that holds only the two bookkeeping keys.
\<close>

theorem C5_witness:
  "getFlights (worldOf (Some emptySnapshot)) 0 0 = Inr []
 \<and> getClosestFlight (worldOf (Some emptySnapshot)) 0 0 0 = Inr zeroFlightPosition
 \<and> getFlights_main (worldOf (Some emptySnapshot)) 0 0 = Inr []
 \<and> getClosestPlane (worldOf (Some emptySnapshot)) 0 0 0 = Inr zeroFlightData"
  using C5_empty_candidates [of "worldOf (Some emptySnapshot)" 0 0 0]
  by (simp add: getFlights_worldOf getFlights_main_worldOf parse_empty)

text \<open>
  C2, at a concrete input. The observer's altitude goes through \<^verbatim>\<open>feetToMeters\<close>, the
  altitude of a candidate does not. For an observer at 20000 feet (6096 metres) above
  the point of longitude 0 and latitude 0, and two aircraft above the same point at
  10000 feet and at 6000 feet, the loop computes the distances 3904 and 96 and returns
  the aircraft at 6000 feet; with both altitudes converted as the observer's is, the
  distances are 3048 and 4267.2, and the aircraft at 10000 feet is the nearer one.
\<close>

theorem C2_candidate_altitude_not_converted:
  "getClosestFlight (worldOf (Some twoFlights)) 0 0 20000 = Inr (flightAt ''2f5a1b02'' 6000)
 \<and> getClosestPlane (worldOf (Some twoFlights)) 0 0 20000
      = Inr (planeAt ''A320'' ''BAW'' ''LHR'' ''CDG'' 6000)
 \<and> pointToCartesian 0 0 (feetToMeters 20000) = (6384233, 0, 0)
 \<and> distanceToFlight 6384233 0 0 (flightAt ''2f5a1b01'' 10000) = 3904
 \<and> distanceToFlight 6384233 0 0 (flightAt ''2f5a1b02'' 6000) = 96
 \<and> (case pointToCartesian 0 0 (feetToMeters 10000) of
       (xFlight, yFlight, zFlight) \<Rightarrow> distance 6384233 0 0 xFlight yFlight zFlight) = 3048
 \<and> (case pointToCartesian 0 0 (feetToMeters 6000) of
       (xFlight, yFlight, zFlight) \<Rightarrow> distance 6384233 0 0 xFlight yFlight zFlight) = 4267.2"
proof -
  have obs: "pointToCartesian 0 0 (feetToMeters 20000) = (6384233, 0, 0)"
    by (simp add: feetToMeters_def pointToCartesian_equator)
  have a: "getClosestFlight (worldOf (Some twoFlights)) 0 0 20000
             = Inr (flightAt ''2f5a1b02'' 6000)"
    by (simp add: getClosestFlight_def obs getFlights_worldOf parse_two
          distanceToFlight_above_origin)
  have b: "getClosestPlane (worldOf (Some twoFlights)) 0 0 20000
             = Inr (planeAt ''A320'' ''BAW'' ''LHR'' ''CDG'' 6000)"
    by (simp add: getClosestPlane_def obs getFlights_main_worldOf parse_two_main
          distanceToFlight_main_above_origin)
  have c: "distanceToFlight 6384233 0 0 (flightAt ''2f5a1b01'' 10000) = 3904"
          "distanceToFlight 6384233 0 0 (flightAt ''2f5a1b02'' 6000) = 96"
    by (simp_all add: distanceToFlight_above_origin)
  have d: "(case pointToCartesian 0 0 (feetToMeters 10000) of
       (xFlight, yFlight, zFlight) \<Rightarrow> distance 6384233 0 0 xFlight yFlight zFlight) = 3048"
    by (simp add: feetToMeters_def pointToCartesian_equator distance_on_axis)
  have e: "(case pointToCartesian 0 0 (feetToMeters 6000) of
       (xFlight, yFlight, zFlight) \<Rightarrow> distance 6384233 0 0 xFlight yFlight zFlight) = 4267.2"
    by (simp add: feetToMeters_def pointToCartesian_equator distance_on_axis)
  show ?thesis using obs a b c d e by simp
qed

section \<open>The altitude of a decoded record\<close>







section \<open>The request handler and the formatted line\<close>












end
